theory Spec2Isabelle
  imports Complex_Main "HOL-Library.Multiset"
begin

section \<open>Data model of \<open>.codex/agents.py\<close>\<close>

text \<open>
  The module dispatches tasks to three agents that call a hosted chat-completion model.
  Everything outside the module (the file system, the model client, the environment, the
  logger, the clock) is made explicit: reads come from a \<open>world\<close>, effects are appended to
  the \<open>trace\<close> of a \<open>state\<close> threaded through every call, and a raised exception is the
  \<open>Inl\<close> of a sum.
\<close>

datatype AgentType =
    CODE_REVIEWER | DOCUMENTATION | TESTING | REFACTORING | ARCHITECTURE | SECURITY | PERFORMANCE

fun AgentType_value :: "AgentType \<Rightarrow> string" where
  "AgentType_value CODE_REVIEWER = ''code_reviewer''"
| "AgentType_value DOCUMENTATION = ''documentation''"
| "AgentType_value TESTING = ''testing''"
| "AgentType_value REFACTORING = ''refactoring''"
| "AgentType_value ARCHITECTURE = ''architecture''"
| "AgentType_value SECURITY = ''security''"
| "AgentType_value PERFORMANCE = ''performance''"

text \<open>
  \<open>AgentTask\<close>: the dataclass. The values of the \<open>context\<close> dictionary are never read by the
  module; they are kept as text.
\<close>

record AgentTask =
  task_type :: AgentType
  description :: string
  task_context :: "(string \<times> string) list"
  files :: "string list"
  requirements :: "string list"
  priority :: int

text \<open>
  Exceptions. The module distinguishes \<open>FileNotFoundError\<close> (caught around \<open>open\<close>) and raises
  \<open>ValueError\<close> itself; \<open>Exception\<close> stands for every other subclass of Python's \<open>Exception\<close>.
  Each carries the text that \<open>str(e)\<close> returns.
\<close>

datatype exn = FileNotFoundError string | ValueError string | Exception string

fun str :: "exn \<Rightarrow> string" where
  "str (FileNotFoundError m) = m"
| "str (ValueError m) = m"
| "str (Exception m) = m"

fun is_FileNotFoundError :: "exn \<Rightarrow> bool" where
  "is_FileNotFoundError (FileNotFoundError m) = True"
| "is_FileNotFoundError (ValueError m) = False"
| "is_FileNotFoundError (Exception m) = False"

text \<open>The values stored in a result dictionary: a text or a list of texts.\<close>

datatype pyval = Str string | StrList "string list"

type_synonym result = "(string \<times> pyval) list"

text \<open>The keyword arguments of \<open>client.chat.completions.create\<close>.\<close>

record request =
  model :: string
  messages :: "(string \<times> string) list list"
  max_tokens :: nat
  temperature :: rat

datatype log_level = INFO | WARNING | ERROR

datatype event = Log log_level string | Create request | Sleep nat

text \<open>
  The collaborators. \<open>open_read p\<close> is \<open>open(p, 'r')\<close> followed by \<open>f.read()\<close>;
  \<open>chat_completions_create n r\<close> is the outcome of the \<open>n\<close>-th model call of the run, with
  \<open>response.choices[0].message.content\<close> already taken (an exception raised while indexing the
  response is raised inside the same \<open>try\<close> block, so it is an \<open>Inl\<close> here as well);
  \<open>context_json\<close> is \<open>json.load\<close> of \<open>context.json\<close>, each entry's value as its JSON text.
\<close>

record world =
  open_read :: "string \<Rightarrow> exn + string"
  chat_completions_create :: "nat \<Rightarrow> request \<Rightarrow> exn + string"
  getenv :: "string \<Rightarrow> string option"
  context_json :: "exn + (string \<times> string) list"

record state =
  trace :: "event list"
  calls :: nat

definition emit :: "event \<Rightarrow> state \<Rightarrow> state" where
  "emit e s = s\<lparr>trace := trace s @ [e]\<rparr>"

definition logger_info :: "string \<Rightarrow> state \<Rightarrow> state" where
  "logger_info m s = emit (Log INFO m) s"

definition logger_warning :: "string \<Rightarrow> state \<Rightarrow> state" where
  "logger_warning m s = emit (Log WARNING m) s"

definition logger_error :: "string \<Rightarrow> state \<Rightarrow> state" where
  "logger_error m s = emit (Log ERROR m) s"

text \<open>\<open>sep.join(xs)\<close>.\<close>

fun join :: "string \<Rightarrow> string list \<Rightarrow> string" where
  "join sep [] = []"
| "join sep [x] = x"
| "join sep (x # y # ys) = x @ sep @ join sep (y # ys)"

text \<open>
  \<open>sorted(xs, key=key, reverse=True)\<close>: descending by key, and stable (elements with equal
  keys keep their order of submission, also under \<open>reverse\<close>).
\<close>

definition sorted_reverse :: "('a \<Rightarrow> int) \<Rightarrow> 'a list \<Rightarrow> 'a list" where
  "sorted_reverse key xs = sort_key (\<lambda>x. - key x) xs"

section \<open>Agents\<close>

record CodexAgent =
  agent_type :: AgentType
  agent_context :: "(string \<times> string) list"

definition load_project_context :: "world \<Rightarrow> state \<Rightarrow> (exn + (string \<times> string) list) \<times> state" where
  "load_project_context w s =
     (case context_json w of
        Inr loaded \<Rightarrow> (Inr loaded, s)
      | Inl e \<Rightarrow>
          if is_FileNotFoundError e
          then (Inr [], logger_warning ''Context file not found. Run .codex/setup.py first.'' s)
          else (Inl e, s))"

definition CodexAgent_init :: "world \<Rightarrow> AgentType \<Rightarrow> state \<Rightarrow> (exn + CodexAgent) \<times> state" where
  "CodexAgent_init w ty s =
     (case load_project_context w s of
        (Inl e, s1) \<Rightarrow> (Inl e, s1)
      | (Inr loaded, s1) \<Rightarrow> (Inr \<lparr>agent_type = ty, agent_context = loaded\<rparr>, s1))"

definition base_context :: "CodexAgent \<Rightarrow> string" where
  "base_context self =
     ''\<newline>'' @
     ''You are a specialized AI assistant for the MEXC Sniper Bot project - an advanced cryptocurrency trading platform.\<newline>'' @
     ''\<newline>'' @
     ''Project Context:\<newline>'' @
     ''- Backend: FastAPI with Python 3.11+, SQLModel, Valkey cache\<newline>'' @
     ''- Frontend: Next.js 15 with TypeScript, shadcn/ui components\<newline>'' @
     ''- AI Features: Pattern detection, trading strategies, market analysis\<newline>'' @
     ''- Key Components: Trading agents, MEXC API integration, calendar component\<newline>'' @
     ''\<newline>'' @
     ''Architecture: '' @
     (case map_of (agent_context self) ''architecture'' of Some j \<Rightarrow> j | None \<Rightarrow> ''{}'') @
     ''\<newline>''"

fun agent_prompts :: "AgentType \<Rightarrow> string option" where
  "agent_prompts CODE_REVIEWER = Some (
     ''\<newline>'' @
     ''You are a senior code reviewer specializing in trading systems and AI applications.\<newline>'' @
     ''Focus on:\<newline>'' @
     ''- Code quality, security, and performance\<newline>'' @
     ''- Trading logic correctness and risk management\<newline>'' @
     ''- Async/await patterns and error handling\<newline>'' @
     ''- Type safety and documentation\<newline>'' @
     ''- Following project patterns and best practices\<newline>'')"
| "agent_prompts DOCUMENTATION = Some (
     ''\<newline>'' @
     ''You are a technical documentation specialist.\<newline>'' @
     ''Focus on:\<newline>'' @
     ''- Clear, comprehensive documentation\<newline>'' @
     ''- API documentation with examples\<newline>'' @
     ''- Architecture diagrams and explanations\<newline>'' @
     ''- User guides and setup instructions\<newline>'' @
     ''- Code comments and docstrings\<newline>'')"
| "agent_prompts TESTING = Some (
     ''\<newline>'' @
     ''You are a testing specialist for financial applications.\<newline>'' @
     ''Focus on:\<newline>'' @
     ''- Comprehensive test coverage\<newline>'' @
     ''- Unit, integration, and performance tests\<newline>'' @
     ''- Mock trading scenarios and edge cases\<newline>'' @
     ''- Test data generation and fixtures\<newline>'' @
     ''- CI/CD testing strategies\<newline>'')"
| "agent_prompts REFACTORING = Some (
     ''\<newline>'' @
     ''You are a refactoring specialist.\<newline>'' @
     ''Focus on:\<newline>'' @
     ''- Code optimization and clean architecture\<newline>'' @
     ''- Performance improvements\<newline>'' @
     ''- Maintainability and readability\<newline>'' @
     ''- Design pattern implementation\<newline>'' @
     ''- Technical debt reduction\<newline>'')"
| "agent_prompts ARCHITECTURE = Some (
     ''\<newline>'' @
     ''You are a software architect specializing in trading systems.\<newline>'' @
     ''Focus on:\<newline>'' @
     ''- System design and scalability\<newline>'' @
     ''- Microservices architecture\<newline>'' @
     ''- Real-time data processing\<newline>'' @
     ''- Security and compliance\<newline>'' @
     ''- Technology stack optimization\<newline>'')"
| "agent_prompts SECURITY = Some (
     ''\<newline>'' @
     ''You are a security specialist for financial applications.\<newline>'' @
     ''Focus on:\<newline>'' @
     ''- API security and authentication\<newline>'' @
     ''- Data encryption and secure storage\<newline>'' @
     ''- Input validation and sanitization\<newline>'' @
     ''- Trading system security\<newline>'' @
     ''- Compliance with financial regulations\<newline>'')"
| "agent_prompts PERFORMANCE = Some (
     ''\<newline>'' @
     ''You are a performance optimization specialist.\<newline>'' @
     ''Focus on:\<newline>'' @
     ''- Trading latency optimization\<newline>'' @
     ''- Database query optimization\<newline>'' @
     ''- Caching strategies\<newline>'' @
     ''- Real-time processing efficiency\<newline>'' @
     ''- Resource utilization\<newline>'')"

definition get_system_prompt :: "CodexAgent \<Rightarrow> string" where
  "get_system_prompt self =
     base_context self @ (case agent_prompts (agent_type self) of Some p \<Rightarrow> p | None \<Rightarrow> '''')"

text \<open>
  One entry of \<open>file_contents\<close>: the path and the text of a file that was read, as a fenced
  block.
\<close>

definition file_block :: "string \<Rightarrow> string \<Rightarrow> string" where
  "file_block file_path content =
     ''File: '' @ file_path @ ''\<newline>```\<newline>'' @ content @ ''\<newline>```''"

text \<open>
  The loop over \<open>task.files\<close>, the same text in the three agents: a file that is not found
  is logged and left out, any other exception of \<open>open\<close> or \<open>read\<close> leaves the loop and
  \<open>process_task\<close>.
\<close>

fun read_files :: "world \<Rightarrow> string list \<Rightarrow> string list \<Rightarrow> state \<Rightarrow> (exn + string list) \<times> state" where
  "read_files w [] file_contents s = (Inr file_contents, s)"
| "read_files w (file_path # rest) file_contents s =
     (case open_read w file_path of
        Inr content \<Rightarrow> read_files w rest (file_contents @ [file_block file_path content]) s
      | Inl e \<Rightarrow>
          if is_FileNotFoundError e
          then read_files w rest file_contents (logger_warning (''File not found: '' @ file_path) s)
          else (Inl e, s))"

definition CodeReviewerAgent_prompt :: "CodexAgent \<Rightarrow> string list \<Rightarrow> AgentTask \<Rightarrow> string" where
  "CodeReviewerAgent_prompt self file_contents task =
     ''\<newline>'' @
     get_system_prompt self @ ''\<newline>'' @
     ''\<newline>'' @
     ''Please review the following code for the MEXC Sniper Bot project:\<newline>'' @
     ''\<newline>'' @
     join ''\<newline>'' file_contents @ ''\<newline>'' @
     ''\<newline>'' @
     ''Task Description: '' @ description task @ ''\<newline>'' @
     ''Requirements: '' @ join '', '' (requirements task) @ ''\<newline>'' @
     ''\<newline>'' @
     ''Provide a comprehensive code review including:\<newline>'' @
     ''1. Security issues and vulnerabilities\<newline>'' @
     ''2. Performance optimizations\<newline>'' @
     ''3. Code quality improvements\<newline>'' @
     ''4. Trading logic correctness\<newline>'' @
     ''5. Compliance with project patterns\<newline>'' @
     ''6. Specific actionable recommendations\<newline>'' @
     ''\<newline>'' @
     ''Format your response as structured feedback with severity levels.\<newline>''"

definition DocumentationAgent_prompt :: "CodexAgent \<Rightarrow> string list \<Rightarrow> AgentTask \<Rightarrow> string" where
  "DocumentationAgent_prompt self file_contents task =
     ''\<newline>'' @
     get_system_prompt self @ ''\<newline>'' @
     ''\<newline>'' @
     ''Generate comprehensive documentation for the following code:\<newline>'' @
     ''\<newline>'' @
     join ''\<newline>'' file_contents @ ''\<newline>'' @
     ''\<newline>'' @
     ''Task Description: '' @ description task @ ''\<newline>'' @
     ''Requirements: '' @ join '', '' (requirements task) @ ''\<newline>'' @
     ''\<newline>'' @
     ''Create documentation that includes:\<newline>'' @
     ''1. Overview and purpose\<newline>'' @
     ''2. API endpoints with examples\<newline>'' @
     ''3. Function/class documentation\<newline>'' @
     ''4. Usage examples\<newline>'' @
     ''5. Configuration options\<newline>'' @
     ''6. Error handling\<newline>'' @
     ''7. Performance considerations\<newline>'' @
     ''\<newline>'' @
     ''Format the documentation in Markdown with proper structure and examples.\<newline>''"

definition TestingAgent_prompt :: "CodexAgent \<Rightarrow> string list \<Rightarrow> AgentTask \<Rightarrow> string" where
  "TestingAgent_prompt self file_contents task =
     ''\<newline>'' @
     get_system_prompt self @ ''\<newline>'' @
     ''\<newline>'' @
     ''Generate comprehensive tests for the following code:\<newline>'' @
     ''\<newline>'' @
     join ''\<newline>'' file_contents @ ''\<newline>'' @
     ''\<newline>'' @
     ''Task Description: '' @ description task @ ''\<newline>'' @
     ''Requirements: '' @ join '', '' (requirements task) @ ''\<newline>'' @
     ''\<newline>'' @
     ''Create tests that include:\<newline>'' @
     ''1. Unit tests for all functions/methods\<newline>'' @
     ''2. Integration tests for API endpoints\<newline>'' @
     ''3. Mock trading scenarios\<newline>'' @
     ''4. Edge cases and error conditions\<newline>'' @
     ''5. Performance tests where applicable\<newline>'' @
     ''6. Fixtures and test data\<newline>'' @
     ''\<newline>'' @
     ''Use pytest framework and follow the existing test patterns in the project.\<newline>'' @
     ''Include proper async test patterns and mocking for external APIs.\<newline>''"

text \<open>
  The model call of an agent: the request is recorded in the trace, the call counter
  advances, and the client's answer for this call is returned.
\<close>

definition create :: "world \<Rightarrow> request \<Rightarrow> state \<Rightarrow> (exn + string) \<times> state" where
  "create w r s =
     (chat_completions_create w (calls s) r, (emit (Create r) s)\<lparr>calls := Suc (calls s)\<rparr>)"

definition CodeReviewerAgent_process_task ::
    "world \<Rightarrow> CodexAgent \<Rightarrow> AgentTask \<Rightarrow> state \<Rightarrow> (exn + result) \<times> state" where
  "CodeReviewerAgent_process_task w self task s =
     (case read_files w (files task) [] s of
        (Inl e, s1) \<Rightarrow> (Inl e, s1)
      | (Inr file_contents, s1) \<Rightarrow>
          (case create w \<lparr>model = ''gpt-4'',
                          messages = [[(''role'', ''user''),
                                       (''content'', CodeReviewerAgent_prompt self file_contents task)]],
                          max_tokens = 2000,
                          temperature = 1 / 10\<rparr> s1 of
             (Inr content, s2) \<Rightarrow>
               (Inr [(''agent_type'', Str (AgentType_value (agent_type self))),
                     (''review'', Str content),
                     (''files_reviewed'', StrList (files task)),
                     (''status'', Str ''completed'')], s2)
           | (Inl e, s2) \<Rightarrow>
               (Inr [(''agent_type'', Str (AgentType_value (agent_type self))),
                     (''status'', Str ''error''),
                     (''error'', Str (str e))],
                logger_error (''Code review failed: '' @ str e) s2)))"

definition DocumentationAgent_process_task ::
    "world \<Rightarrow> CodexAgent \<Rightarrow> AgentTask \<Rightarrow> state \<Rightarrow> (exn + result) \<times> state" where
  "DocumentationAgent_process_task w self task s =
     (case read_files w (files task) [] s of
        (Inl e, s1) \<Rightarrow> (Inl e, s1)
      | (Inr file_contents, s1) \<Rightarrow>
          (case create w \<lparr>model = ''gpt-4'',
                          messages = [[(''role'', ''user''),
                                       (''content'', DocumentationAgent_prompt self file_contents task)]],
                          max_tokens = 2500,
                          temperature = 2 / 10\<rparr> s1 of
             (Inr content, s2) \<Rightarrow>
               (Inr [(''agent_type'', Str (AgentType_value (agent_type self))),
                     (''documentation'', Str content),
                     (''files_documented'', StrList (files task)),
                     (''status'', Str ''completed'')], s2)
           | (Inl e, s2) \<Rightarrow>
               (Inr [(''agent_type'', Str (AgentType_value (agent_type self))),
                     (''status'', Str ''error''),
                     (''error'', Str (str e))],
                logger_error (''Documentation generation failed: '' @ str e) s2)))"

definition TestingAgent_process_task ::
    "world \<Rightarrow> CodexAgent \<Rightarrow> AgentTask \<Rightarrow> state \<Rightarrow> (exn + result) \<times> state" where
  "TestingAgent_process_task w self task s =
     (case read_files w (files task) [] s of
        (Inl e, s1) \<Rightarrow> (Inl e, s1)
      | (Inr file_contents, s1) \<Rightarrow>
          (case create w \<lparr>model = ''gpt-4'',
                          messages = [[(''role'', ''user''),
                                       (''content'', TestingAgent_prompt self file_contents task)]],
                          max_tokens = 2500,
                          temperature = 1 / 10\<rparr> s1 of
             (Inr content, s2) \<Rightarrow>
               (Inr [(''agent_type'', Str (AgentType_value (agent_type self))),
                     (''tests'', Str content),
                     (''files_tested'', StrList (files task)),
                     (''status'', Str ''completed'')], s2)
           | (Inl e, s2) \<Rightarrow>
               (Inr [(''agent_type'', Str (AgentType_value (agent_type self))),
                     (''status'', Str ''error''),
                     (''error'', Str (str e))],
                logger_error (''Test generation failed: '' @ str e) s2)))"

text \<open>
  The three subclasses of \<open>CodexAgent\<close>; \<open>process_task\<close> is the method the object's class
  selects.
\<close>

datatype agent = CodeReviewerAgent CodexAgent | DocumentationAgent CodexAgent | TestingAgent CodexAgent

fun process_task :: "world \<Rightarrow> agent \<Rightarrow> AgentTask \<Rightarrow> state \<Rightarrow> (exn + result) \<times> state" where
  "process_task w (CodeReviewerAgent self) task s = CodeReviewerAgent_process_task w self task s"
| "process_task w (DocumentationAgent self) task s = DocumentationAgent_process_task w self task s"
| "process_task w (TestingAgent self) task s = TestingAgent_process_task w self task s"

section \<open>Orchestrator\<close>

record MultiAgentOrchestrator =
  api_key :: string
  agents :: "(AgentType \<times> agent) list"

text \<open>
  \<open>__init__\<close>: \<open>openai_api_key or os.getenv("OPENAI_API_KEY")\<close> takes the argument when it is
  a non-empty text and the environment's value otherwise; \<open>not self.api_key\<close> holds of
  \<open>None\<close> and of the empty text.
\<close>

definition MultiAgentOrchestrator_init ::
    "world \<Rightarrow> string option \<Rightarrow> state \<Rightarrow> (exn + MultiAgentOrchestrator) \<times> state" where
  "MultiAgentOrchestrator_init w openai_api_key s =
     (let key = (if openai_api_key \<noteq> None \<and> openai_api_key \<noteq> Some '''' then openai_api_key
                 else getenv w ''OPENAI_API_KEY'')
      in case key of
           None \<Rightarrow> (Inl (ValueError ''OpenAI API key not found. Set OPENAI_API_KEY environment variable.''), s)
         | Some k \<Rightarrow>
             if k = ''''
             then (Inl (ValueError ''OpenAI API key not found. Set OPENAI_API_KEY environment variable.''), s)
             else
               (case CodexAgent_init w CODE_REVIEWER s of
                  (Inl e, s1) \<Rightarrow> (Inl e, s1)
                | (Inr reviewer, s1) \<Rightarrow>
                    (case CodexAgent_init w DOCUMENTATION s1 of
                       (Inl e, s2) \<Rightarrow> (Inl e, s2)
                     | (Inr documenter, s2) \<Rightarrow>
                         (case CodexAgent_init w TESTING s2 of
                            (Inl e, s3) \<Rightarrow> (Inl e, s3)
                          | (Inr tester, s3) \<Rightarrow>
                              (Inr \<lparr>api_key = k,
                                    agents = [(CODE_REVIEWER, CodeReviewerAgent reviewer),
                                              (DOCUMENTATION, DocumentationAgent documenter),
                                              (TESTING, TestingAgent tester)]\<rparr>, s3)))))"

record WorkflowSummary =
  workflow_results :: "result list"
  total_tasks :: nat
  completed_tasks :: nat
  failed_tasks :: nat

text \<open>
  The body of the loop of \<open>process_workflow\<close> for one task. The delay stands inside the
  \<open>try\<close> block, after the append; the \<open>except\<close> branch appends the orchestrator's own error
  record.
\<close>

definition process_workflow_body ::
    "world \<Rightarrow> MultiAgentOrchestrator \<Rightarrow> AgentTask \<Rightarrow> result list \<times> state \<Rightarrow> result list \<times> state" where
  "process_workflow_body w self task rs =
     (case rs of (results, s) \<Rightarrow>
        (case map_of (agents self) (task_type task) of
           Some a \<Rightarrow>
             (case process_task w a task
                     (logger_info (''Processing '' @ AgentType_value (task_type task) @ '' task: '' @
                                   description task) s) of
                (Inr r, s1) \<Rightarrow> (results @ [r], emit (Sleep 1) s1)
              | (Inl e, s1) \<Rightarrow>
                  (results @ [[(''agent_type'', Str (AgentType_value (task_type task))),
                               (''status'', Str ''error''),
                               (''error'', Str (str e))]],
                   logger_error (''Task failed: '' @ str e) s1))
         | None \<Rightarrow>
             (results,
              logger_warning (''No agent available for task type: '' @ AgentType_value (task_type task)) s)))"

fun process_workflow_loop ::
    "world \<Rightarrow> MultiAgentOrchestrator \<Rightarrow> AgentTask list \<Rightarrow> result list \<times> state \<Rightarrow> result list \<times> state" where
  "process_workflow_loop w self [] rs = rs"
| "process_workflow_loop w self (task # rest) rs =
     process_workflow_loop w self rest (process_workflow_body w self task rs)"

definition process_workflow ::
    "world \<Rightarrow> MultiAgentOrchestrator \<Rightarrow> AgentTask list \<Rightarrow> state \<Rightarrow> WorkflowSummary \<times> state" where
  "process_workflow w self tasks s =
     (let sorted_tasks = sorted_reverse priority tasks
      in case process_workflow_loop w self sorted_tasks ([], s) of
           (results, s') \<Rightarrow>
             (\<lparr>workflow_results = results,
               total_tasks = length tasks,
               completed_tasks = length (filter (\<lambda>r. map_of r ''status'' = Some (Str ''completed'')) results),
               failed_tasks = length (filter (\<lambda>r. map_of r ''status'' = Some (Str ''error'')) results)\<rparr>,
              s'))"

definition code_review_workflow ::
    "world \<Rightarrow> MultiAgentOrchestrator \<Rightarrow> string list \<Rightarrow> state \<Rightarrow> WorkflowSummary \<times> state" where
  "code_review_workflow w self file_paths s =
     process_workflow w self
       [\<lparr>task_type = CODE_REVIEWER,
         description = ''Comprehensive code review for security, performance, and quality'',
         task_context = [],
         files = file_paths,
         requirements = [''Security vulnerability assessment'',
                         ''Performance optimization suggestions'',
                         ''Code quality improvements'',
                         ''Trading logic validation''],
         priority = 1\<rparr>] s"

definition documentation_workflow ::
    "world \<Rightarrow> MultiAgentOrchestrator \<Rightarrow> string list \<Rightarrow> state \<Rightarrow> WorkflowSummary \<times> state" where
  "documentation_workflow w self file_paths s =
     process_workflow w self
       [\<lparr>task_type = DOCUMENTATION,
         description = ''Generate comprehensive documentation'',
         task_context = [],
         files = file_paths,
         requirements = [''API documentation with examples'',
                         ''Function/class documentation'',
                         ''Usage examples'',
                         ''Configuration guides''],
         priority = 1\<rparr>] s"

definition testing_workflow ::
    "world \<Rightarrow> MultiAgentOrchestrator \<Rightarrow> string list \<Rightarrow> state \<Rightarrow> WorkflowSummary \<times> state" where
  "testing_workflow w self file_paths s =
     process_workflow w self
       [\<lparr>task_type = TESTING,
         description = ''Generate comprehensive test suite'',
         task_context = [],
         files = file_paths,
         requirements = [''Unit tests with high coverage'',
                         ''Integration tests for APIs'',
                         ''Mock trading scenarios'',
                         ''Edge case testing''],
         priority = 1\<rparr>] s"

section \<open>Notions used to state the properties\<close>

text \<open>\<open>task.task_type in self.agents\<close>.\<close>

definition registered :: "MultiAgentOrchestrator \<Rightarrow> AgentTask \<Rightarrow> bool" where
  "registered self task = (map_of (agents self) (task_type task) \<noteq> None)"

text \<open>
  The key under which an agent's completed record carries the model's text, and the key
  under which it echoes \<open>task.files\<close>.
\<close>

fun payload_key :: "AgentType \<Rightarrow> string option" where
  "payload_key CODE_REVIEWER = Some ''review''"
| "payload_key DOCUMENTATION = Some ''documentation''"
| "payload_key TESTING = Some ''tests''"
| "payload_key _ = None"

fun files_key :: "AgentType \<Rightarrow> string option" where
  "files_key CODE_REVIEWER = Some ''files_reviewed''"
| "files_key DOCUMENTATION = Some ''files_documented''"
| "files_key TESTING = Some ''files_tested''"
| "files_key _ = None"

text \<open>The two shapes of a record for a task: completed, and error.\<close>

definition completed_record :: "AgentTask \<Rightarrow> result \<Rightarrow> bool" where
  "completed_record task r =
     (\<exists>pk fk content.
        payload_key (task_type task) = Some pk \<and> files_key (task_type task) = Some fk \<and>
        r = [(''agent_type'', Str (AgentType_value (task_type task))),
             (pk, Str content),
             (fk, StrList (files task)),
             (''status'', Str ''completed'')])"

definition error_record :: "AgentTask \<Rightarrow> result \<Rightarrow> bool" where
  "error_record task r =
     (\<exists>msg. r = [(''agent_type'', Str (AgentType_value (task_type task))),
                 (''status'', Str ''error''),
                 (''error'', Str msg)])"

text \<open>The base-class fields of an agent object, the request it sends, and its class.\<close>

fun base :: "agent \<Rightarrow> CodexAgent" where
  "base (CodeReviewerAgent self) = self"
| "base (DocumentationAgent self) = self"
| "base (TestingAgent self) = self"

fun agent_request :: "agent \<Rightarrow> string list \<Rightarrow> AgentTask \<Rightarrow> request" where
  "agent_request (CodeReviewerAgent self) file_contents task =
     \<lparr>model = ''gpt-4'',
      messages = [[(''role'', ''user''), (''content'', CodeReviewerAgent_prompt self file_contents task)]],
      max_tokens = 2000, temperature = 1 / 10\<rparr>"
| "agent_request (DocumentationAgent self) file_contents task =
     \<lparr>model = ''gpt-4'',
      messages = [[(''role'', ''user''), (''content'', DocumentationAgent_prompt self file_contents task)]],
      max_tokens = 2500, temperature = 2 / 10\<rparr>"
| "agent_request (TestingAgent self) file_contents task =
     \<lparr>model = ''gpt-4'',
      messages = [[(''role'', ''user''), (''content'', TestingAgent_prompt self file_contents task)]],
      max_tokens = 2500, temperature = 1 / 10\<rparr>"

fun agent_class :: "agent \<Rightarrow> AgentType" where
  "agent_class (CodeReviewerAgent self) = CODE_REVIEWER"
| "agent_class (DocumentationAgent self) = DOCUMENTATION"
| "agent_class (TestingAgent self) = TESTING"

text \<open>The text an agent logs before the exception's when its model call fails.\<close>

fun failure_prefix :: "agent \<Rightarrow> string" where
  "failure_prefix (CodeReviewerAgent self) = ''Code review failed: ''"
| "failure_prefix (DocumentationAgent self) = ''Documentation generation failed: ''"
| "failure_prefix (TestingAgent self) = ''Test generation failed: ''"

text \<open>
  An orchestrator as \<open>__init__\<close> leaves it: each of the three categories is bound to an
  agent of its own class that carries the category as its \<open>agent_type\<close>.
\<close>

definition constructed :: "MultiAgentOrchestrator \<Rightarrow> bool" where
  "constructed self =
     (\<exists>c1 c2 c3.
        agents self =
          [(CODE_REVIEWER, CodeReviewerAgent \<lparr>agent_type = CODE_REVIEWER, agent_context = c1\<rparr>),
           (DOCUMENTATION, DocumentationAgent \<lparr>agent_type = DOCUMENTATION, agent_context = c2\<rparr>),
           (TESTING, TestingAgent \<lparr>agent_type = TESTING, agent_context = c3\<rparr>)])"

text \<open>
  What the file reader says of the paths of a list: the blocks of the files that are read,
  the paths that are not found, and whether some path fails in another way.
\<close>

definition present_blocks :: "world \<Rightarrow> string list \<Rightarrow> string list" where
  "present_blocks w ps =
     concat (map (\<lambda>p. case open_read w p of Inr content \<Rightarrow> [file_block p content] | Inl e \<Rightarrow> []) ps)"

definition missing_files :: "world \<Rightarrow> string list \<Rightarrow> string list" where
  "missing_files w ps =
     filter (\<lambda>p. case open_read w p of Inr content \<Rightarrow> False | Inl e \<Rightarrow> is_FileNotFoundError e) ps"

definition read_raises :: "world \<Rightarrow> string \<Rightarrow> bool" where
  "read_raises w p = (case open_read w p of Inr content \<Rightarrow> False | Inl e \<Rightarrow> \<not> is_FileNotFoundError e)"

definition sleeps :: "event list \<Rightarrow> nat" where
  "sleeps tr = length (filter (\<lambda>e. e = Sleep 1) tr)"

text \<open>A task one of whose files fails to be read in another way than by not being found.\<close>

definition task_raises :: "world \<Rightarrow> AgentTask \<Rightarrow> bool" where
  "task_raises w task = (\<exists>p \<in> set (files task). read_raises w p)"

definition task_record :: "AgentTask \<Rightarrow> result \<Rightarrow> bool" where
  "task_record task r = (completed_record task r \<or> error_record task r)"

section \<open>A concrete run\<close>

text \<open>
  A world with one readable file, one unreadable file and no other file, whose model
  answers the first call and refuses every later one; the credential is in the
  environment and \<open>context.json\<close> does not exist.
\<close>

definition example_world :: world where
  "example_world =
     \<lparr>open_read = (\<lambda>p. if p = ''bot.py'' then Inr ''print(1)''
                       else if p = ''secrets'' then Inl (Exception ''[Errno 13] Permission denied'')
                       else Inl (FileNotFoundError ''[Errno 2] No such file or directory'')),
      chat_completions_create = (\<lambda>n r. if n = 0 then Inr ''looks fine'' else Inl (Exception ''Connection error.'')),
      getenv = (\<lambda>v. if v = ''OPENAI_API_KEY'' then Some ''sk-test'' else None),
      context_json = Inl (FileNotFoundError ''[Errno 2] No such file or directory'')\<rparr>"

definition example_state :: state where
  "example_state = \<lparr>trace = [], calls = 0\<rparr>"

definition example_orchestrator :: MultiAgentOrchestrator where
  "example_orchestrator =
     \<lparr>api_key = ''sk-test'',
      agents = [(CODE_REVIEWER, CodeReviewerAgent \<lparr>agent_type = CODE_REVIEWER, agent_context = []\<rparr>),
                (DOCUMENTATION, DocumentationAgent \<lparr>agent_type = DOCUMENTATION, agent_context = []\<rparr>),
                (TESTING, TestingAgent \<lparr>agent_type = TESTING, agent_context = []\<rparr>)]\<rparr>"

definition example_task :: "AgentType \<Rightarrow> string \<Rightarrow> string list \<Rightarrow> int \<Rightarrow> AgentTask" where
  "example_task ty d fs p =
     \<lparr>task_type = ty, description = d, task_context = [], files = fs, requirements = [], priority = p\<rparr>"

definition example_tasks :: "AgentTask list" where
  "example_tasks =
     [example_task DOCUMENTATION ''A'' [''bot.py''] 1,
      example_task SECURITY ''B'' [''bot.py''] 5,
      example_task CODE_REVIEWER ''C'' [''bot.py'', ''gone.py''] 3,
      example_task TESTING ''D'' [''secrets''] 3]"

section \<open>Reading the files and calling the model\<close>

lemma read_files_calls: "calls (snd (read_files w ps acc s)) = calls s"
  by (induction ps arbitrary: acc s) (auto simp: logger_warning_def emit_def split: sum.splits)

lemma read_files_Inr:
  "read_files w ps acc s = (Inr fc, s') \<Longrightarrow>
     fc = acc @ present_blocks w ps \<and>
     s' = s\<lparr>trace := trace s @ map (\<lambda>p. Log WARNING (''File not found: '' @ p)) (missing_files w ps)\<rparr>"
proof (induction ps arbitrary: acc s)
  case Nil
  then show ?case by (simp add: present_blocks_def missing_files_def)
next
  case (Cons p ps)
  show ?case
  proof (cases "open_read w p")
    case (Inr content)
    with Cons.prems have "read_files w ps (acc @ [file_block p content]) s = (Inr fc, s')" by simp
    from Cons.IH[OF this] Inr show ?thesis by (simp add: present_blocks_def missing_files_def)
  next
    case (Inl e)
    with Cons.prems have nf: "is_FileNotFoundError e" by (auto split: if_splits)
    with Cons.prems Inl
    have "read_files w ps acc (logger_warning (''File not found: '' @ p) s) = (Inr fc, s')" by simp
    from Cons.IH[OF this] Inl nf show ?thesis
      by (simp add: present_blocks_def missing_files_def logger_warning_def emit_def)
  qed
qed

lemma read_files_Inl:
  "read_files w ps acc s = (Inl e, s') \<Longrightarrow>
     (\<exists>p \<in> set ps. open_read w p = Inl e \<and> \<not> is_FileNotFoundError e) \<and>
     (\<exists>ws. s' = s\<lparr>trace := trace s @ map (Log WARNING) ws\<rparr>)"
proof (induction ps arbitrary: acc s)
  case Nil
  then show ?case by simp
next
  case (Cons p ps)
  show ?case
  proof (cases "open_read w p")
    case (Inr content)
    with Cons.prems have "read_files w ps (acc @ [file_block p content]) s = (Inl e, s')" by simp
    from Cons.IH[OF this] show ?thesis by auto
  next
    case (Inl e')
    show ?thesis
    proof (cases "is_FileNotFoundError e'")
      case True
      with Cons.prems Inl
      have "read_files w ps acc (logger_warning (''File not found: '' @ p) s) = (Inl e, s')" by simp
      from Cons.IH[OF this] obtain ws where
        a: "\<exists>p \<in> set ps. open_read w p = Inl e \<and> \<not> is_FileNotFoundError e" and
        b: "s' = (logger_warning (''File not found: '' @ p) s)\<lparr>trace := trace (logger_warning (''File not found: '' @ p) s) @ map (Log WARNING) ws\<rparr>"
        by auto
      from b have "s' = s\<lparr>trace := trace s @ map (Log WARNING) ((''File not found: '' @ p) # ws)\<rparr>"
        by (simp add: logger_warning_def emit_def)
      with a show ?thesis by (metis list.set_intros(2))
    next
      case False
      with Cons.prems Inl have "e' = e" "s' = s" by auto
      with Inl False show ?thesis by (auto intro: exI[of _ "[]"])
    qed
  qed
qed

lemma read_files_total:
  "(\<forall>p \<in> set ps. \<not> read_raises w p) \<Longrightarrow> \<exists>fc s'. read_files w ps acc s = (Inr fc, s')"
  by (induction ps arbitrary: acc s) (auto simp: read_raises_def split: sum.splits)

lemma read_files_raises:
  "(\<exists>p \<in> set ps. read_raises w p) \<Longrightarrow> \<exists>e s'. read_files w ps acc s = (Inl e, s')"
  by (induction ps arbitrary: acc s) (auto simp: read_raises_def split: sum.splits)


lemma process_task_returns:
  assumes "\<forall>p \<in> set (files t). \<not> read_raises w p"
  shows "process_task w a t s =
           (case chat_completions_create w (calls s) (agent_request a (present_blocks w (files t)) t) of
              Inr content \<Rightarrow>
                (Inr [(''agent_type'', Str (AgentType_value (agent_type (base a)))),
                      (the (payload_key (agent_class a)), Str content),
                      (the (files_key (agent_class a)), StrList (files t)),
                      (''status'', Str ''completed'')],
                 s\<lparr>trace := trace s @ map (\<lambda>p. Log WARNING (''File not found: '' @ p)) (missing_files w (files t))
                                @ [Create (agent_request a (present_blocks w (files t)) t)],
                   calls := Suc (calls s)\<rparr>)
            | Inl e \<Rightarrow>
                (Inr [(''agent_type'', Str (AgentType_value (agent_type (base a)))),
                      (''status'', Str ''error''),
                      (''error'', Str (str e))],
                 s\<lparr>trace := trace s @ map (\<lambda>p. Log WARNING (''File not found: '' @ p)) (missing_files w (files t))
                                @ [Create (agent_request a (present_blocks w (files t)) t),
                                   Log ERROR (failure_prefix a @ str e)],
                   calls := Suc (calls s)\<rparr>))"
proof -
  from read_files_total[OF assms] obtain fc s1 where rf: "read_files w (files t) [] s = (Inr fc, s1)"
    by blast
  from read_files_Inr[OF rf] have fc: "fc = present_blocks w (files t)"
    and s1: "s1 = s\<lparr>trace := trace s @ map (\<lambda>p. Log WARNING (''File not found: '' @ p)) (missing_files w (files t))\<rparr>"
    by simp_all
  show ?thesis
  proof (cases a)
    case (CodeReviewerAgent self)
    then show ?thesis using rf fc s1
      by (cases "chat_completions_create w (calls s) (agent_request a (present_blocks w (files t)) t)")
         (simp_all add: CodeReviewerAgent_process_task_def create_def emit_def logger_error_def)
  next
    case (DocumentationAgent self)
    then show ?thesis using rf fc s1
      by (cases "chat_completions_create w (calls s) (agent_request a (present_blocks w (files t)) t)")
         (simp_all add: DocumentationAgent_process_task_def create_def emit_def logger_error_def)
  next
    case (TestingAgent self)
    then show ?thesis using rf fc s1
      by (cases "chat_completions_create w (calls s) (agent_request a (present_blocks w (files t)) t)")
         (simp_all add: TestingAgent_process_task_def create_def emit_def logger_error_def)
  qed
qed

lemma process_task_raises:
  assumes "\<exists>p \<in> set (files t). read_raises w p"
  shows "\<exists>e ws. process_task w a t s = (Inl e, s\<lparr>trace := trace s @ map (Log WARNING) ws\<rparr>) \<and>
                 (\<exists>p \<in> set (files t). open_read w p = Inl e \<and> \<not> is_FileNotFoundError e)"
proof -
  from read_files_raises[OF assms] obtain e s1 where rf: "read_files w (files t) [] s = (Inl e, s1)"
    by blast
  from read_files_Inl[OF rf] obtain ws where
    p: "\<exists>p \<in> set (files t). open_read w p = Inl e \<and> \<not> is_FileNotFoundError e" and
    s1: "s1 = s\<lparr>trace := trace s @ map (Log WARNING) ws\<rparr>" by blast
  have "process_task w a t s = (Inl e, s1)"
    using rf by (cases a)
      (simp_all add: CodeReviewerAgent_process_task_def DocumentationAgent_process_task_def
         TestingAgent_process_task_def)
  with p s1 show ?thesis by blast
qed

lemma init_constructed:
  "MultiAgentOrchestrator_init w key s = (Inr self, s') \<Longrightarrow> constructed self"
  unfolding MultiAgentOrchestrator_init_def CodexAgent_init_def load_project_context_def constructed_def Let_def
  by (auto split: option.splits if_splits sum.splits prod.splits)

lemma constructed_lookup:
  "constructed self \<Longrightarrow> map_of (agents self) ty = Some a \<Longrightarrow>
     agent_type (base a) = ty \<and> agent_class a = ty \<and> ty \<in> {CODE_REVIEWER, DOCUMENTATION, TESTING}"
  unfolding constructed_def by (auto split: if_splits)

lemma constructed_registered:
  "constructed self \<Longrightarrow> registered self t = (task_type t \<in> {CODE_REVIEWER, DOCUMENTATION, TESTING})"
  unfolding constructed_def registered_def by (auto split: if_splits)

section \<open>The body of the workflow loop\<close>

lemma read_files_fst: "fst (read_files w ps acc s) = fst (read_files w ps acc s2)"
  by (induction ps arbitrary: acc s s2) (auto split: sum.splits)

lemma process_task_Inl:
  "read_files w (files t) [] s = (Inl e, s1) \<Longrightarrow> process_task w a t s = (Inl e, s1)"
  by (cases a)
     (simp_all add: CodeReviewerAgent_process_task_def DocumentationAgent_process_task_def
        TestingAgent_process_task_def)

lemma process_task_indep:
  assumes "calls s = calls s2"
  shows "fst (process_task w a t s) = fst (process_task w a t s2) \<and>
         calls (snd (process_task w a t s)) = calls (snd (process_task w a t s2))"
proof (cases "task_raises w t")
  case True
  then obtain e s1 where rf: "read_files w (files t) [] s = (Inl e, s1)"
    using read_files_raises[of "files t" w "[]" s] by (auto simp: task_raises_def)
  have "fst (read_files w (files t) [] s2) = Inl e"
    using read_files_fst[of w "files t" "[]" s2 s] rf by simp
  then obtain s3 where rf2: "read_files w (files t) [] s2 = (Inl e, s3)"
    by (cases "read_files w (files t) [] s2") simp
  have "calls s1 = calls s" using read_files_calls[of w "files t" "[]" s] rf by simp
  moreover have "calls s3 = calls s2" using read_files_calls[of w "files t" "[]" s2] rf2 by simp
  ultimately show ?thesis using process_task_Inl[OF rf] process_task_Inl[OF rf2] assms by simp
next
  case False
  then have nr: "\<forall>p \<in> set (files t). \<not> read_raises w p" by (simp add: task_raises_def)
  show ?thesis
    using assms
    by (simp add: process_task_returns[OF nr] split: sum.splits)
qed

lemma body_unregistered:
  "\<not> registered self t \<Longrightarrow>
     process_workflow_body w self t (rs, s) =
       (rs, logger_warning (''No agent available for task type: '' @ AgentType_value (task_type t)) s)"
  by (simp add: process_workflow_body_def registered_def)

lemma sleeps_append: "sleeps (xs @ ys) = sleeps xs + sleeps ys"
  by (simp add: sleeps_def)

lemma sleeps_warnings: "sleeps (map (\<lambda>p. Log l (f p)) ps) = 0"
  by (induction ps) (simp_all add: sleeps_def)

lemma body_returns:
  assumes c: "constructed self" and r: "registered self t" and nr: "\<not> task_raises w t"
  shows "\<exists>r s1. process_workflow_body w self t (rs, s) = (rs @ [r], s1) \<and> task_record t r \<and>
                 calls s1 = Suc (calls s) \<and> sleeps (trace s1) = Suc (sleeps (trace s))"
proof -
  from r obtain a where a: "map_of (agents self) (task_type t) = Some a"
    by (auto simp: registered_def)
  from constructed_lookup[OF c a] have ty: "agent_type (base a) = task_type t"
    and cl: "agent_class a = task_type t"
    and three: "task_type t \<in> {CODE_REVIEWER, DOCUMENTATION, TESTING}" by simp_all
  from three obtain pk fk where keys: "payload_key (task_type t) = Some pk" "files_key (task_type t) = Some fk"
    by auto
  from nr have nr': "\<forall>p \<in> set (files t). \<not> read_raises w p" by (simp add: task_raises_def)
  show ?thesis
    using a ty cl keys
    by (simp add: process_workflow_body_def process_task_returns[OF nr'] logger_info_def emit_def
          task_record_def completed_record_def error_record_def sleeps_append sleeps_warnings
          sleeps_def
        split: sum.splits)
qed

lemma body_raises:
  assumes c: "constructed self" and r: "registered self t" and ra: "task_raises w t"
  shows "\<exists>r s1. process_workflow_body w self t (rs, s) = (rs @ [r], s1) \<and> error_record t r \<and>
                 calls s1 = calls s \<and> sleeps (trace s1) = sleeps (trace s)"
proof -
  from r obtain a where a: "map_of (agents self) (task_type t) = Some a"
    by (auto simp: registered_def)
  from ra have "\<exists>p \<in> set (files t). read_raises w p" by (simp add: task_raises_def)
  from process_task_raises[OF this] obtain e ws where
    pt: "process_task w a t (logger_info (''Processing '' @ AgentType_value (task_type t) @ '' task: '' @ description t) s)
           = (Inl e, (logger_info (''Processing '' @ AgentType_value (task_type t) @ '' task: '' @ description t) s)
                \<lparr>trace := trace (logger_info (''Processing '' @ AgentType_value (task_type t) @ '' task: '' @ description t) s) @ map (Log WARNING) ws\<rparr>)"
    by blast
  have "sleeps (map (Log WARNING) ws) = 0" by (induction ws) (simp_all add: sleeps_def)
  then show ?thesis
    using a pt
    by (simp add: process_workflow_body_def logger_info_def logger_error_def emit_def
          error_record_def sleeps_append)
       (simp add: sleeps_def)
qed

section \<open>The workflow loop and the order of the tasks\<close>

lemma loop_records:
  assumes c: "constructed self"
  shows "\<exists>new s'. process_workflow_loop w self ts (rs, s) = (rs @ new, s') \<and>
           list_all2 task_record (filter (registered self) ts) new \<and>
           sleeps (trace s') =
             sleeps (trace s) + length (filter (\<lambda>t. registered self t \<and> \<not> task_raises w t) ts)"
proof (induction ts arbitrary: rs s)
  case Nil
  show ?case by simp
next
  case (Cons t ts)
  show ?case
  proof (cases "registered self t")
    case False
    from Cons.IH[of rs "logger_warning (''No agent available for task type: '' @ AgentType_value (task_type t)) s"]
    show ?thesis using False
      by (simp add: body_unregistered logger_warning_def emit_def sleeps_append) (simp add: sleeps_def)
  next
    case True
    show ?thesis
    proof (cases "task_raises w t")
      case False
      from body_returns[OF c True False, of rs s] obtain r s1 where
        b: "process_workflow_body w self t (rs, s) = (rs @ [r], s1)" and tr: "task_record t r"
        and sl: "sleeps (trace s1) = Suc (sleeps (trace s))" by blast
      from Cons.IH[of "rs @ [r]" s1] obtain new s' where
        l: "process_workflow_loop w self ts (rs @ [r], s1) = ((rs @ [r]) @ new, s')"
        and la: "list_all2 task_record (filter (registered self) ts) new"
        and sl': "sleeps (trace s') = sleeps (trace s1) + length (filter (\<lambda>t. registered self t \<and> \<not> task_raises w t) ts)"
        by blast
      have "process_workflow_loop w self (t # ts) (rs, s) = (rs @ (r # new), s')"
        using b l by simp
      moreover have "list_all2 task_record (filter (registered self) (t # ts)) (r # new)"
        using True tr la by simp
      moreover have "sleeps (trace s') = sleeps (trace s) + length (filter (\<lambda>t. registered self t \<and> \<not> task_raises w t) (t # ts))"
        using True False sl sl' by simp
      ultimately show ?thesis by blast
    next
      case raises: True
      from body_raises[OF c True raises, of rs s] obtain r s1 where
        b: "process_workflow_body w self t (rs, s) = (rs @ [r], s1)" and er: "error_record t r"
        and sl: "sleeps (trace s1) = sleeps (trace s)" by blast
      from Cons.IH[of "rs @ [r]" s1] obtain new s' where
        l: "process_workflow_loop w self ts (rs @ [r], s1) = ((rs @ [r]) @ new, s')"
        and la: "list_all2 task_record (filter (registered self) ts) new"
        and sl': "sleeps (trace s') = sleeps (trace s1) + length (filter (\<lambda>t. registered self t \<and> \<not> task_raises w t) ts)"
        by blast
      have "process_workflow_loop w self (t # ts) (rs, s) = (rs @ (r # new), s')"
        using b l by simp
      moreover have "list_all2 task_record (filter (registered self) (t # ts)) (r # new)"
        using True er la by (simp add: task_record_def)
      moreover have "sleeps (trace s') = sleeps (trace s) + length (filter (\<lambda>t. registered self t \<and> \<not> task_raises w t) (t # ts))"
        using True raises sl sl' by simp
      ultimately show ?thesis by blast
    qed
  qed
qed

lemma workflow_records:
  assumes c: "constructed self"
  shows "list_all2 task_record (filter (registered self) (sorted_reverse priority ts))
           (workflow_results (fst (process_workflow w self ts s))) \<and>
         sleeps (trace (snd (process_workflow w self ts s))) =
           sleeps (trace s) +
           length (filter (\<lambda>t. registered self t \<and> \<not> task_raises w t) (sorted_reverse priority ts))"
proof -
  from loop_records[OF c, of w "sorted_reverse priority ts" "[]" s] obtain new s' where
    "process_workflow_loop w self (sorted_reverse priority ts) ([], s) = (new, s')"
    "list_all2 task_record (filter (registered self) (sorted_reverse priority ts)) new"
    "sleeps (trace s') = sleeps (trace s) +
       length (filter (\<lambda>t. registered self t \<and> \<not> task_raises w t) (sorted_reverse priority ts))"
    by auto
  then show ?thesis by (simp add: process_workflow_def)
qed

lemma sorted_reverse_descending:
  "sorted_wrt (\<lambda>a b. key b \<le> key a) (sorted_reverse key xs)"
proof -
  have "sorted (map (\<lambda>x. - key x) (sort_key (\<lambda>x. - key x) xs))" by (rule sorted_sort_key)
  then show ?thesis by (simp add: sorted_reverse_def sorted_map)
qed

lemma sorted_reverse_stable:
  "filter (\<lambda>x. key x = k) (sorted_reverse key xs) = filter (\<lambda>x. key x = k) xs"
proof -
  have "filter (\<lambda>x. - key x = - k) (sort_key (\<lambda>x. - key x) xs) = filter (\<lambda>x. - key x = - k) xs"
    by (rule sort_key_stable)
  then show ?thesis by (simp add: sorted_reverse_def)
qed

lemma mset_sorted_reverse: "mset (sorted_reverse key xs) = mset xs"
  by (simp add: sorted_reverse_def)

lemma filter_sorted_reverse:
  "filter P (sorted_reverse key xs) = sorted_reverse key (filter P xs)"
  by (simp add: sorted_reverse_def filter_sort)

lemma length_filter_sorted_reverse:
  "length (filter P (sorted_reverse key xs)) = length (filter P xs)"
  by (simp add: sorted_reverse_def filter_sort)

section \<open>Properties of the workflow\<close>

lemma example_init:
  "MultiAgentOrchestrator_init example_world None example_state =
     (Inr example_orchestrator,
      \<lparr>trace = [Log WARNING ''Context file not found. Run .codex/setup.py first.'',
                Log WARNING ''Context file not found. Run .codex/setup.py first.'',
                Log WARNING ''Context file not found. Run .codex/setup.py first.''],
       calls = 0\<rparr>)"
  by (simp add: MultiAgentOrchestrator_init_def CodexAgent_init_def load_project_context_def
        example_world_def example_state_def example_orchestrator_def logger_warning_def emit_def)

lemma example_sorted:
  "sorted_reverse priority example_tasks =
     [example_task SECURITY ''B'' [''bot.py''] 5,
      example_task CODE_REVIEWER ''C'' [''bot.py'', ''gone.py''] 3,
      example_task TESTING ''D'' [''secrets''] 3,
      example_task DOCUMENTATION ''A'' [''bot.py''] 1]"
  by (simp add: sorted_reverse_def example_tasks_def example_task_def)


lemma example_registered:
  "filter (registered example_orchestrator) (sorted_reverse priority example_tasks) =
     [example_task CODE_REVIEWER ''C'' [''bot.py'', ''gone.py''] 3,
      example_task TESTING ''D'' [''secrets''] 3,
      example_task DOCUMENTATION ''A'' [''bot.py''] 1]"
  by (simp add: example_sorted registered_def example_orchestrator_def example_task_def)

lemma task_record_status:
  "task_record t r \<Longrightarrow>
     (map_of r ''status'' = Some (Str ''completed'')) \<noteq> (map_of r ''status'' = Some (Str ''error''))"
  unfolding task_record_def completed_record_def error_record_def
  by (cases "task_type t") auto

lemma list_all2_status_count:
  "list_all2 task_record ts rs \<Longrightarrow>
     length (filter (\<lambda>r. map_of r ''status'' = Some (Str ''completed'')) rs) +
     length (filter (\<lambda>r. map_of r ''status'' = Some (Str ''error'')) rs) = length rs"
proof (induction ts rs rule: list_all2_induct)
  case Nil
  show ?case by simp
next
  case (Cons t ts r rs)
  from task_record_status[OF Cons.hyps(1)] Cons.IH show ?case by auto
qed

lemma workflow_summary_fields:
  "total_tasks (fst (process_workflow w self ts s)) = length ts \<and>
   completed_tasks (fst (process_workflow w self ts s)) =
     length (filter (\<lambda>r. map_of r ''status'' = Some (Str ''completed''))
               (workflow_results (fst (process_workflow w self ts s)))) \<and>
   failed_tasks (fst (process_workflow w self ts s)) =
     length (filter (\<lambda>r. map_of r ''status'' = Some (Str ''error''))
               (workflow_results (fst (process_workflow w self ts s))))"
  by (simp add: process_workflow_def split: prod.splits)

text \<open>
  C1. For every task list, \<open>process_workflow\<close> returns exactly one record per task whose
  category is registered; the records follow the tasks sorted by descending priority, and
  tasks of equal priority keep their order of submission.
\<close>

theorem process_workflow_records_in_priority_order:
  assumes "MultiAgentOrchestrator_init w0 key s0 = (Inr self, s1)"
  shows "list_all2 task_record (filter (registered self) (sorted_reverse priority tasks))
           (workflow_results (fst (process_workflow w self tasks s))) \<and>
         length (workflow_results (fst (process_workflow w self tasks s))) =
           length (filter (registered self) tasks) \<and>
         sorted_wrt (\<lambda>a b. priority b \<le> priority a) (sorted_reverse priority tasks) \<and>
         mset (sorted_reverse priority tasks) = mset tasks \<and>
         (\<forall>k. filter (\<lambda>t. priority t = k) (sorted_reverse priority tasks) =
               filter (\<lambda>t. priority t = k) tasks)"
proof -
  have c: "constructed self" using assms by (rule init_constructed)
  have rec: "list_all2 task_record (filter (registered self) (sorted_reverse priority tasks))
           (workflow_results (fst (process_workflow w self tasks s)))"
    using workflow_records[OF c] by blast
  have "length (workflow_results (fst (process_workflow w self tasks s))) =
          length (filter (registered self) (sorted_reverse priority tasks))"
    using rec by (auto dest: list_all2_lengthD)
  then have len: "length (workflow_results (fst (process_workflow w self tasks s))) =
          length (filter (registered self) tasks)"
    by (simp add: length_filter_sorted_reverse)
  show ?thesis
    using rec len sorted_reverse_descending[of priority tasks] mset_sorted_reverse[of priority tasks]
      sorted_reverse_stable[of priority _ tasks]
    by simp
qed

theorem process_workflow_records_in_priority_order_witness:
  "list_all2 task_record
     [example_task CODE_REVIEWER ''C'' [''bot.py'', ''gone.py''] 3,
      example_task TESTING ''D'' [''secrets''] 3,
      example_task DOCUMENTATION ''A'' [''bot.py''] 1]
     (workflow_results (fst (process_workflow example_world example_orchestrator example_tasks example_state))) \<and>
   length (workflow_results (fst (process_workflow example_world example_orchestrator example_tasks example_state))) = 3 \<and>
   filter (\<lambda>t. priority t = 3) (sorted_reverse priority example_tasks) =
     [example_task CODE_REVIEWER ''C'' [''bot.py'', ''gone.py''] 3,
      example_task TESTING ''D'' [''secrets''] 3]"
proof -
  note run = process_workflow_records_in_priority_order
               [OF example_init, of example_tasks example_world example_state]
  have "length (filter (registered example_orchestrator) example_tasks) = 3"
    by (simp add: example_tasks_def registered_def example_orchestrator_def example_task_def)
  moreover have "filter (\<lambda>t. priority t = 3) example_tasks =
     [example_task CODE_REVIEWER ''C'' [''bot.py'', ''gone.py''] 3,
      example_task TESTING ''D'' [''secrets''] 3]"
    by (simp add: example_tasks_def example_task_def)
  ultimately show ?thesis using run by (simp add: example_registered)
qed

text \<open>
  C5. The summary's \<open>total_tasks\<close> is the length of the input list, so it also counts the
  tasks of an unregistered category, which emit no record; \<open>completed_tasks\<close> and
  \<open>failed_tasks\<close> count the emitted records of status \<open>completed\<close> and of status \<open>error\<close>.
\<close>

theorem process_workflow_summary_counts:
  assumes "MultiAgentOrchestrator_init w0 key s0 = (Inr self, s1)"
  shows "total_tasks (fst (process_workflow w self tasks s)) = length tasks \<and>
         total_tasks (fst (process_workflow w self tasks s)) =
           length (workflow_results (fst (process_workflow w self tasks s))) +
           length (filter (\<lambda>t. \<not> registered self t) tasks) \<and>
         completed_tasks (fst (process_workflow w self tasks s)) =
           length (filter (\<lambda>r. map_of r ''status'' = Some (Str ''completed''))
                     (workflow_results (fst (process_workflow w self tasks s)))) \<and>
         failed_tasks (fst (process_workflow w self tasks s)) =
           length (filter (\<lambda>r. map_of r ''status'' = Some (Str ''error''))
                     (workflow_results (fst (process_workflow w self tasks s))))"
proof -
  have c: "constructed self" using assms by (rule init_constructed)
  have "length (workflow_results (fst (process_workflow w self tasks s))) =
          length (filter (registered self) (sorted_reverse priority tasks))"
    using workflow_records[OF c, of tasks w s] by (auto dest: list_all2_lengthD)
  then have "length (workflow_results (fst (process_workflow w self tasks s))) =
          length (filter (registered self) tasks)"
    by (simp add: length_filter_sorted_reverse)
  moreover have "length (filter (registered self) tasks) + length (filter (\<lambda>t. \<not> registered self t) tasks) = length tasks"
    by (rule sum_length_filter_compl)
  ultimately show ?thesis using workflow_summary_fields[of w self tasks s] by simp
qed

theorem process_workflow_summary_counts_witness:
  "total_tasks (fst (process_workflow example_world example_orchestrator example_tasks example_state)) = 4 \<and>
   length (workflow_results (fst (process_workflow example_world example_orchestrator example_tasks example_state))) = 3 \<and>
   filter (\<lambda>t. \<not> registered example_orchestrator t) example_tasks = [example_task SECURITY ''B'' [''bot.py''] 5]"
  using process_workflow_summary_counts
          [OF example_init, of example_world example_tasks example_state]
  by (simp add: example_tasks_def registered_def example_orchestrator_def example_task_def)

text \<open>
  C6. Every emitted record has status \<open>completed\<close> or status \<open>error\<close>, so the two counts of
  the summary add up to the number of emitted records.
\<close>

theorem process_workflow_counts_add_up:
  assumes "MultiAgentOrchestrator_init w0 key s0 = (Inr self, s1)"
  shows "completed_tasks (fst (process_workflow w self tasks s)) +
         failed_tasks (fst (process_workflow w self tasks s)) =
           length (workflow_results (fst (process_workflow w self tasks s))) \<and>
         list_all (\<lambda>r. map_of r ''status'' = Some (Str ''completed'') \<or>
                        map_of r ''status'' = Some (Str ''error''))
           (workflow_results (fst (process_workflow w self tasks s)))"
proof -
  have c: "constructed self" using assms by (rule init_constructed)
  have rec: "list_all2 task_record (filter (registered self) (sorted_reverse priority tasks))
           (workflow_results (fst (process_workflow w self tasks s)))"
    using workflow_records[OF c] by blast
  have "\<forall>r \<in> set (workflow_results (fst (process_workflow w self tasks s))).
          map_of r ''status'' = Some (Str ''completed'') \<or> map_of r ''status'' = Some (Str ''error'')"
  proof
    fix r assume "r \<in> set (workflow_results (fst (process_workflow w self tasks s)))"
    then obtain t where "task_record t r" using rec by (auto simp: list_all2_conv_all_nth in_set_conv_nth)
    from task_record_status[OF this] show "map_of r ''status'' = Some (Str ''completed'') \<or> map_of r ''status'' = Some (Str ''error'')"
      by auto
  qed
  then show ?thesis
    using list_all2_status_count[OF rec] workflow_summary_fields[of w self tasks s]
    by (simp add: list_all_iff)
qed

theorem process_workflow_counts_add_up_witness:
  "completed_tasks (fst (process_workflow example_world example_orchestrator example_tasks example_state)) +
   failed_tasks (fst (process_workflow example_world example_orchestrator example_tasks example_state)) =
     length (workflow_results (fst (process_workflow example_world example_orchestrator example_tasks example_state)))"
  using process_workflow_counts_add_up
          [OF example_init, of example_world example_tasks example_state]
  by simp

section \<open>Result records and failures\<close>

lemma process_task_Inr_not_raises:
  assumes "process_task w a t s = (Inr r, s')"
  shows "\<not> task_raises w t"
proof
  assume "task_raises w t"
  then have "\<exists>p \<in> set (files t). read_raises w p" by (simp add: task_raises_def)
  from process_task_raises[OF this, of a s] assms show False by auto
qed

lemma example_present:
  "present_blocks example_world [''bot.py'', ''gone.py''] = [file_block ''bot.py'' ''print(1)'']"
  by (simp add: present_blocks_def example_world_def)

lemma example_missing:
  "missing_files example_world [''bot.py'', ''gone.py''] = [''gone.py'']"
  by (simp add: missing_files_def example_world_def)

lemma example_not_raises:
  "\<not> task_raises example_world (example_task ty d [''bot.py'', ''gone.py''] p)"
  by (simp add: task_raises_def read_raises_def example_world_def example_task_def)

lemma example_lookup:
  "map_of (agents example_orchestrator) CODE_REVIEWER =
     Some (CodeReviewerAgent \<lparr>agent_type = CODE_REVIEWER, agent_context = []\<rparr>) \<and>
   map_of (agents example_orchestrator) DOCUMENTATION =
     Some (DocumentationAgent \<lparr>agent_type = DOCUMENTATION, agent_context = []\<rparr>) \<and>
   map_of (agents example_orchestrator) TESTING =
     Some (TestingAgent \<lparr>agent_type = TESTING, agent_context = []\<rparr>)"
  by (simp add: example_orchestrator_def)

text \<open>
  C2, as the code has it. A record for a task of a registered category holds the category
  and the status. When the files are read and the model answers, the record is completed:
  it holds the model's answer under the agent's own key and the task's file list under the
  agent's own key. When the model call raises, or when \<open>process_task\<close> itself raises, the
  record is an error record: it holds \<open>str(e)\<close> of that exception and nothing else.
\<close>

theorem result_record_contents:
  assumes "MultiAgentOrchestrator_init w0 key s0 = (Inr self, s1)"
    and "map_of (agents self) (task_type t) = Some a"
  shows "\<exists>r. fst (process_workflow_body w self t (rs, s)) = rs @ [r] \<and>
           (if task_raises w t
            then \<exists>e s2. process_task w a t 
                     (logger_info (''Processing '' @ AgentType_value (task_type t) @ '' task: '' @ description t) s) = (Inl e, s2) \<and>
                   r = [(''agent_type'', Str (AgentType_value (task_type t))),
                        (''status'', Str ''error''),
                        (''error'', Str (str e))]
            else case chat_completions_create w (calls s)
                        (agent_request a (present_blocks w (files t)) t) of
                   Inr content \<Rightarrow>
                     \<exists>pk fk. payload_key (task_type t) = Some pk \<and> files_key (task_type t) = Some fk \<and>
                       r = [(''agent_type'', Str (AgentType_value (task_type t))),
                            (pk, Str content),
                            (fk, StrList (files t)),
                            (''status'', Str ''completed'')]
                 | Inl e \<Rightarrow>
                     r = [(''agent_type'', Str (AgentType_value (task_type t))),
                          (''status'', Str ''error''),
                          (''error'', Str (str e))])"
proof -
  have c: "constructed self" using assms(1) by (rule init_constructed)
  from constructed_lookup[OF c assms(2)] have ty: "agent_type (base a) = task_type t"
    and cl: "agent_class a = task_type t"
    and three: "task_type t \<in> {CODE_REVIEWER, DOCUMENTATION, TESTING}" by simp_all
  from three obtain pk fk where keys: "payload_key (task_type t) = Some pk" "files_key (task_type t) = Some fk"
    by auto
  have k: "calls 
                     (logger_info (''Processing '' @ AgentType_value (task_type t) @ '' task: '' @ description t) s) = calls s"
    by (simp add: logger_info_def emit_def)
  show ?thesis
  proof (cases "task_raises w t")
    case True
    then have "\<exists>p \<in> set (files t). read_raises w p" by (simp add: task_raises_def)
    from process_task_raises[OF this, of a "logger_info (''Processing '' @ AgentType_value (task_type t) @ '' task: '' @ description t) s"]
    obtain e s2 where pt: "process_task w a t 
                     (logger_info (''Processing '' @ AgentType_value (task_type t) @ '' task: '' @ description t) s) = (Inl e, s2)" by blast
    then have "fst (process_workflow_body w self t (rs, s)) =
                 rs @ [[(''agent_type'', Str (AgentType_value (task_type t))),
                        (''status'', Str ''error''),
                        (''error'', Str (str e))]]"
      using assms(2) by (simp add: process_workflow_body_def)
    with True pt show ?thesis by auto
  next
    case False
    then have nr: "\<forall>p \<in> set (files t). \<not> read_raises w p" by (simp add: task_raises_def)
    show ?thesis
    proof (cases "chat_completions_create w (calls s) (agent_request a (present_blocks w (files t)) t)")
      case (Inl e)
      then show ?thesis using False assms(2) ty k
        by (simp add: process_workflow_body_def process_task_returns[OF nr])
    next
      case (Inr content)
      then show ?thesis using False assms(2) ty cl keys k
        by (simp add: process_workflow_body_def process_task_returns[OF nr])
    qed
  qed
qed

theorem result_record_contents_witness:
  "fst (process_workflow_body example_world example_orchestrator
          (example_task CODE_REVIEWER ''C'' [''bot.py'', ''gone.py''] 3) ([], example_state)) =
     [[(''agent_type'', Str ''code_reviewer''),
       (''review'', Str ''looks fine''),
       (''files_reviewed'', StrList [''bot.py'', ''gone.py'']),
       (''status'', Str ''completed'')]]"
proof -
  have a: "map_of (agents example_orchestrator)
             (task_type (example_task CODE_REVIEWER ''C'' [''bot.py'', ''gone.py''] 3)) =
           Some (CodeReviewerAgent \<lparr>agent_type = CODE_REVIEWER, agent_context = []\<rparr>)"
    by (simp add: example_orchestrator_def example_task_def)
  have m: "chat_completions_create example_world (calls example_state) = (\<lambda>r. Inr ''looks fine'')"
    by (simp add: example_world_def example_state_def)
  from result_record_contents[OF example_init a, of example_world "[]" example_state]
  show ?thesis
    unfolding m by (simp add: example_not_raises) (auto simp: example_task_def)
qed

text \<open>
  The claim C2 as stated fails: the record of a task whose model call fails has status
  \<open>error\<close> and no entry that holds the task's file list.
\<close>

theorem error_record_without_file_list:
  "\<exists>r. fst (process_task example_world
               (CodeReviewerAgent \<lparr>agent_type = CODE_REVIEWER, agent_context = []\<rparr>)
               (example_task CODE_REVIEWER ''C'' [''bot.py'', ''gone.py''] 3)
               \<lparr>trace = [], calls = 1\<rparr>) = Inr r \<and>
        map_of r ''status'' = Some (Str ''error'') \<and>
        StrList (files (example_task CODE_REVIEWER ''C'' [''bot.py'', ''gone.py''] 3)) \<notin> snd ` set r"
  by (simp add: CodeReviewerAgent_process_task_def create_def example_world_def example_task_def
        logger_warning_def logger_error_def emit_def)

text \<open>
  C3. For every agent variant, when the files are read and the model call raises, the
  exception does not leave \<open>process_task\<close>: the agent returns a record of status \<open>error\<close>
  whose error is \<open>str(e)\<close>; the workflow appends this record and goes on with the
  remaining tasks.
\<close>

theorem model_failure_becomes_error_record:
  assumes "map_of (agents self) (task_type t) = Some a"
    and "\<not> task_raises w t"
    and "chat_completions_create w (calls s) (agent_request a (present_blocks w (files t)) t) = Inl e"
  shows "fst (process_task w a t s) =
           Inr [(''agent_type'', Str (AgentType_value (agent_type (base a)))),
                (''status'', Str ''error''),
                (''error'', Str (str e))] \<and>
         process_workflow_loop w self (t # rest) (rs, s) =
           process_workflow_loop w self rest
             (rs @ [[(''agent_type'', Str (AgentType_value (agent_type (base a)))),
                     (''status'', Str ''error''),
                     (''error'', Str (str e))]],
              emit (Sleep 1)
                (snd (process_task w a t
                        (logger_info (''Processing '' @ AgentType_value (task_type t) @ '' task: '' @
                                      description t) s))))"
proof -
  from assms(2) have nr: "\<forall>p \<in> set (files t). \<not> read_raises w p" by (simp add: task_raises_def)
  have one: "fst (process_task w a t s) =
           Inr [(''agent_type'', Str (AgentType_value (agent_type (base a)))),
                (''status'', Str ''error''),
                (''error'', Str (str e))]"
    using assms(3) by (simp add: process_task_returns[OF nr])
  have "calls (logger_info (''Processing '' @ AgentType_value (task_type t) @ '' task: '' @ description t) s) = calls s"
    by (simp add: logger_info_def emit_def)
  from process_task_indep[OF this, of w a t] one
  have two: "fst (process_task w a t
                (logger_info (''Processing '' @ AgentType_value (task_type t) @ '' task: '' @ description t) s)) =
           Inr [(''agent_type'', Str (AgentType_value (agent_type (base a)))),
                (''status'', Str ''error''),
                (''error'', Str (str e))]"
    by simp
  have "process_workflow_body w self t (rs, s) =
          (rs @ [[(''agent_type'', Str (AgentType_value (agent_type (base a)))),
                  (''status'', Str ''error''),
                  (''error'', Str (str e))]],
           emit (Sleep 1)
             (snd (process_task w a t
                     (logger_info (''Processing '' @ AgentType_value (task_type t) @ '' task: '' @
                                   description t) s))))"
    using assms(1) two
    by (cases "process_task w a t
                (logger_info (''Processing '' @ AgentType_value (task_type t) @ '' task: '' @ description t) s)")
       (simp add: process_workflow_body_def)
  with one show ?thesis by simp
qed

theorem model_failure_becomes_error_record_witness:
  "fst (process_task example_world (DocumentationAgent \<lparr>agent_type = DOCUMENTATION, agent_context = []\<rparr>)
          (example_task DOCUMENTATION ''A'' [''bot.py'', ''gone.py''] 1) \<lparr>trace = [], calls = 1\<rparr>) =
     Inr [(''agent_type'', Str ''documentation''),
          (''status'', Str ''error''),
          (''error'', Str ''Connection error.'')]"
proof -
  have a: "map_of (agents example_orchestrator) (task_type (example_task DOCUMENTATION ''A'' [''bot.py'', ''gone.py''] 1)) =
             Some (DocumentationAgent \<lparr>agent_type = DOCUMENTATION, agent_context = []\<rparr>)"
    by (simp add: example_orchestrator_def example_task_def)
  have f: "chat_completions_create example_world (calls \<lparr>trace = [], calls = 1\<rparr>)
             (agent_request (DocumentationAgent \<lparr>agent_type = DOCUMENTATION, agent_context = []\<rparr>)
                (present_blocks example_world (files (example_task DOCUMENTATION ''A'' [''bot.py'', ''gone.py''] 1)))
                (example_task DOCUMENTATION ''A'' [''bot.py'', ''gone.py''] 1)) = Inl (Exception ''Connection error.'')"
    by (simp add: example_world_def)
  from model_failure_becomes_error_record[OF a example_not_raises f]
  show ?thesis by simp
qed

text \<open>
  C10. When \<open>process_task\<close> raises, the workflow catches the exception and appends a record
  made of the task's category, the status \<open>error\<close> and \<open>str(e)\<close>; the task has its one
  record and the loop goes on with the remaining tasks.
\<close>

theorem raising_task_gets_error_record:
  assumes "MultiAgentOrchestrator_init w0 key s0 = (Inr self, s1)"
    and "map_of (agents self) (task_type t) = Some a"
    and "process_task w a t
           (logger_info (''Processing '' @ AgentType_value (task_type t) @ '' task: '' @ description t) s) =
         (Inl e, s2)"
  shows "process_workflow_body w self t (rs, s) =
           (rs @ [[(''agent_type'', Str (AgentType_value (task_type t))),
                   (''status'', Str ''error''),
                   (''error'', Str (str e))]],
            logger_error (''Task failed: '' @ str e) s2) \<and>
         process_workflow_loop w self (t # rest) (rs, s) =
           process_workflow_loop w self rest
             (rs @ [[(''agent_type'', Str (AgentType_value (task_type t))),
                     (''status'', Str ''error''),
                     (''error'', Str (str e))]],
              logger_error (''Task failed: '' @ str e) s2) \<and>
         length (fst (process_workflow_loop w self (t # rest) (rs, s))) =
           Suc (length rs) + length (filter (registered self) rest)"
proof -
  have c: "constructed self" using assms(1) by (rule init_constructed)
  have b: "process_workflow_body w self t (rs, s) =
           (rs @ [[(''agent_type'', Str (AgentType_value (task_type t))),
                   (''status'', Str ''error''),
                   (''error'', Str (str e))]],
            logger_error (''Task failed: '' @ str e) s2)"
    using assms(2,3) by (simp add: process_workflow_body_def)
  from loop_records[OF c, of w rest
         "rs @ [[(''agent_type'', Str (AgentType_value (task_type t))), (''status'', Str ''error''), (''error'', Str (str e))]]"
         "logger_error (''Task failed: '' @ str e) s2"]
  obtain new s' where
    l: "process_workflow_loop w self rest
          (rs @ [[(''agent_type'', Str (AgentType_value (task_type t))), (''status'', Str ''error''), (''error'', Str (str e))]],
           logger_error (''Task failed: '' @ str e) s2) =
        ((rs @ [[(''agent_type'', Str (AgentType_value (task_type t))), (''status'', Str ''error''), (''error'', Str (str e))]]) @ new, s')"
    and la: "list_all2 task_record (filter (registered self) rest) new"
    by blast
  from la have "length new = length (filter (registered self) rest)"
    by (auto dest: list_all2_lengthD)
  with b l show ?thesis by simp
qed

theorem raising_task_gets_error_record_witness:
  "process_workflow_body example_world example_orchestrator (example_task TESTING ''D'' [''secrets''] 3)
     ([], example_state) =
     ([[(''agent_type'', Str ''testing''),
        (''status'', Str ''error''),
        (''error'', Str ''[Errno 13] Permission denied'')]],
      \<lparr>trace = [Log INFO ''Processing testing task: D'',
                Log ERROR ''Task failed: [Errno 13] Permission denied''],
       calls = 0\<rparr>)"
proof -
  have a: "map_of (agents example_orchestrator) (task_type (example_task TESTING ''D'' [''secrets''] 3)) =
             Some (TestingAgent \<lparr>agent_type = TESTING, agent_context = []\<rparr>)"
    by (simp add: example_orchestrator_def example_task_def)
  have p: "process_task example_world (TestingAgent \<lparr>agent_type = TESTING, agent_context = []\<rparr>)
             (example_task TESTING ''D'' [''secrets''] 3)
             (logger_info (''Processing '' @ AgentType_value (task_type (example_task TESTING ''D'' [''secrets''] 3)) @
                           '' task: '' @ description (example_task TESTING ''D'' [''secrets''] 3)) example_state) =
           (Inl (Exception ''[Errno 13] Permission denied''),
            \<lparr>trace = [Log INFO ''Processing testing task: D''], calls = 0\<rparr>)"
    by (simp add: TestingAgent_process_task_def example_world_def example_task_def example_state_def
          logger_info_def emit_def)
  from raising_task_gets_error_record[OF example_init a p, of "[]" "[]"]
  show ?thesis by (simp add: example_task_def logger_error_def emit_def)
qed







section \<open>The registry and the credential\<close>

lemma body_indep:
  assumes "calls s = calls s2"
  shows "fst (process_workflow_body w self t (rs, s)) = fst (process_workflow_body w self t (rs, s2)) \<and>
         calls (snd (process_workflow_body w self t (rs, s))) =
         calls (snd (process_workflow_body w self t (rs, s2)))"
proof (cases "map_of (agents self) (task_type t)")
  case None
  then show ?thesis using assms
    by (simp add: process_workflow_body_def logger_warning_def emit_def)
next
  case (Some a)
  let ?m = "''Processing '' @ AgentType_value (task_type t) @ '' task: '' @ description t"
  have "calls (logger_info ?m s) = calls (logger_info ?m s2)"
    using assms by (simp add: logger_info_def emit_def)
  from process_task_indep[OF this, of w a t]
  have f: "fst (process_task w a t (logger_info ?m s)) = fst (process_task w a t (logger_info ?m s2))"
    and k: "calls (snd (process_task w a t (logger_info ?m s))) =
            calls (snd (process_task w a t (logger_info ?m s2)))"
    by simp_all
  obtain o1 u1 where p1: "process_task w a t (logger_info ?m s) = (o1, u1)"
    by (cases "process_task w a t (logger_info ?m s)")
  obtain o2 u2 where p2: "process_task w a t (logger_info ?m s2) = (o2, u2)"
    by (cases "process_task w a t (logger_info ?m s2)")
  from f k p1 p2 have "o1 = o2" "calls u1 = calls u2" by simp_all
  then show ?thesis using Some p1 p2
    by (cases o2) (simp_all add: process_workflow_body_def logger_error_def emit_def)
qed

lemma loop_skips_unregistered:
  assumes "calls s = calls s2"
  shows "fst (process_workflow_loop w self ts (rs, s)) =
         fst (process_workflow_loop w self (filter (registered self) ts) (rs, s2))"
  using assms
proof (induction ts arbitrary: rs s s2)
  case Nil
  show ?case by simp
next
  case (Cons t ts)
  show ?case
  proof (cases "registered self t")
    case False
    have "calls (logger_warning (''No agent available for task type: '' @ AgentType_value (task_type t)) s) = calls s2"
      using Cons.prems by (simp add: logger_warning_def emit_def)
    from Cons.IH[OF this, of rs] show ?thesis using False by (simp add: body_unregistered)
  next
    case True
    obtain r1 u1 where b1: "process_workflow_body w self t (rs, s) = (r1, u1)"
      by (cases "process_workflow_body w self t (rs, s)")
    obtain r2 u2 where b2: "process_workflow_body w self t (rs, s2) = (r2, u2)"
      by (cases "process_workflow_body w self t (rs, s2)")
    from body_indep[OF Cons.prems, of w self t rs] b1 b2 have "r1 = r2" "calls u1 = calls u2"
      by simp_all
    with Cons.IH[of u1 u2 r2] True b1 b2 show ?thesis by simp
  qed
qed

lemma workflow_skips_unregistered:
  "workflow_results (fst (process_workflow w self tasks s)) =
   workflow_results (fst (process_workflow w self (filter (registered self) tasks) s))"
proof -
  have "fst (process_workflow_loop w self (sorted_reverse priority tasks) ([], s)) =
        fst (process_workflow_loop w self (sorted_reverse priority (filter (registered self) tasks)) ([], s))"
    using loop_skips_unregistered[of s s w self "sorted_reverse priority tasks" "[]"]
    by (simp add: filter_sorted_reverse)
  then show ?thesis
    by (cases "process_workflow_loop w self (sorted_reverse priority tasks) ([], s)";
        cases "process_workflow_loop w self (sorted_reverse priority (filter (registered self) tasks)) ([], s)")
       (simp add: process_workflow_def)
qed

lemma init_registry:
  "MultiAgentOrchestrator_init w key s = (Inr self, s') \<Longrightarrow>
     map fst (agents self) = [CODE_REVIEWER, DOCUMENTATION, TESTING]"
  by (drule init_constructed) (auto simp: constructed_def)

lemma three_or_four:
  "(ty \<in> {CODE_REVIEWER, DOCUMENTATION, TESTING}) = (ty \<notin> {REFACTORING, ARCHITECTURE, SECURITY, PERFORMANCE})"
  by (cases ty) simp_all

text \<open>
  C9. The registry of a constructed orchestrator holds exactly the categories
  \<open>code_reviewer\<close>, \<open>documentation\<close> and \<open>testing\<close>. A task of one of the four other
  categories emits no record: the loop only logs a warning and goes on, and the records of
  the workflow are those of the same list without these tasks.
\<close>

theorem unregistered_categories_are_skipped:
  assumes "MultiAgentOrchestrator_init w0 key s0 = (Inr self, s1)"
    and "task_type t \<in> {REFACTORING, ARCHITECTURE, SECURITY, PERFORMANCE}"
  shows "map fst (agents self) = [CODE_REVIEWER, DOCUMENTATION, TESTING] \<and>
         process_workflow_body w self t (rs, s) =
           (rs, logger_warning (''No agent available for task type: '' @ AgentType_value (task_type t)) s) \<and>
         process_workflow_loop w self (t # rest) (rs, s) =
           process_workflow_loop w self rest
             (rs, logger_warning (''No agent available for task type: '' @ AgentType_value (task_type t)) s) \<and>
         workflow_results (fst (process_workflow w self tasks s)) =
           workflow_results
             (fst (process_workflow w self
                     (filter (\<lambda>t. task_type t \<notin> {REFACTORING, ARCHITECTURE, SECURITY, PERFORMANCE}) tasks) s))"
proof -
  have c: "constructed self" using assms(1) by (rule init_constructed)
  have reg: "registered self = (\<lambda>t. task_type t \<notin> {REFACTORING, ARCHITECTURE, SECURITY, PERFORMANCE})"
    using constructed_registered[OF c] three_or_four by auto
  have "\<not> registered self t" using assms(2) by (simp add: reg)
  then have b: "process_workflow_body w self t (rs, s) =
           (rs, logger_warning (''No agent available for task type: '' @ AgentType_value (task_type t)) s)"
    by (rule body_unregistered)
  show ?thesis
    using init_registry[OF assms(1)] b workflow_skips_unregistered[of w self tasks s]
    by (simp add: reg)
qed

theorem unregistered_categories_are_skipped_witness:
  "map fst (agents example_orchestrator) = [CODE_REVIEWER, DOCUMENTATION, TESTING] \<and>
   process_workflow_body example_world example_orchestrator (example_task SECURITY ''B'' [''bot.py''] 5)
     ([], example_state) =
     ([], \<lparr>trace = [Log WARNING ''No agent available for task type: security''], calls = 0\<rparr>) \<and>
   workflow_results (fst (process_workflow example_world example_orchestrator example_tasks example_state)) =
   workflow_results
     (fst (process_workflow example_world example_orchestrator
             [example_task DOCUMENTATION ''A'' [''bot.py''] 1,
              example_task CODE_REVIEWER ''C'' [''bot.py'', ''gone.py''] 3,
              example_task TESTING ''D'' [''secrets''] 3] example_state))"
proof -
  have m: "task_type (example_task SECURITY ''B'' [''bot.py''] 5) \<in> {REFACTORING, ARCHITECTURE, SECURITY, PERFORMANCE}"
    by (simp add: example_task_def)
  have f: "filter (\<lambda>t. task_type t \<notin> {REFACTORING, ARCHITECTURE, SECURITY, PERFORMANCE}) example_tasks =
            [example_task DOCUMENTATION ''A'' [''bot.py''] 1,
             example_task CODE_REVIEWER ''C'' [''bot.py'', ''gone.py''] 3,
             example_task TESTING ''D'' [''secrets''] 3]"
    by (simp add: example_tasks_def example_task_def)
  from unregistered_categories_are_skipped[OF example_init m, of example_world "[]" example_state "[]" example_tasks]
  show ?thesis
    unfolding f by (simp add: example_task_def logger_warning_def emit_def example_state_def)
qed

text \<open>
  C8, as the code has it. Without a credential, neither passed in nor in the environment,
  \<open>__init__\<close> raises \<open>ValueError\<close> before anything else happens, so no orchestrator exists
  on which \<open>process_workflow\<close> could be called. With a non-empty credential, passed in or
  taken from the environment, and a \<open>context.json\<close> that is absent or loads, construction
  succeeds: the orchestrator keeps the credential and binds the three categories to agents
  that hold the loaded context.
\<close>

theorem orchestrator_needs_credential:
  "((arg = None \<or> arg = Some '''') \<and>
    (getenv w ''OPENAI_API_KEY'' = None \<or> getenv w ''OPENAI_API_KEY'' = Some '''') \<longrightarrow>
      MultiAgentOrchestrator_init w arg s =
        (Inl (ValueError ''OpenAI API key not found. Set OPENAI_API_KEY environment variable.''), s)) \<and>
   (k \<noteq> '''' \<and>
    (arg = Some k \<or> ((arg = None \<or> arg = Some '''') \<and> getenv w ''OPENAI_API_KEY'' = Some k)) \<and>
    (\<forall>e. context_json w = Inl e \<longrightarrow> is_FileNotFoundError e) \<longrightarrow>
      MultiAgentOrchestrator_init w arg s =
        (case context_json w of
           Inr loaded \<Rightarrow>
             (Inr \<lparr>api_key = k,
                   agents = [(CODE_REVIEWER, CodeReviewerAgent \<lparr>agent_type = CODE_REVIEWER, agent_context = loaded\<rparr>),
                             (DOCUMENTATION, DocumentationAgent \<lparr>agent_type = DOCUMENTATION, agent_context = loaded\<rparr>),
                             (TESTING, TestingAgent \<lparr>agent_type = TESTING, agent_context = loaded\<rparr>)]\<rparr>, s)
         | Inl e \<Rightarrow>
             (Inr \<lparr>api_key = k,
                   agents = [(CODE_REVIEWER, CodeReviewerAgent \<lparr>agent_type = CODE_REVIEWER, agent_context = []\<rparr>),
                             (DOCUMENTATION, DocumentationAgent \<lparr>agent_type = DOCUMENTATION, agent_context = []\<rparr>),
                             (TESTING, TestingAgent \<lparr>agent_type = TESTING, agent_context = []\<rparr>)]\<rparr>,
              s\<lparr>trace := trace s @ [Log WARNING ''Context file not found. Run .codex/setup.py first.'',
                                   Log WARNING ''Context file not found. Run .codex/setup.py first.'',
                                   Log WARNING ''Context file not found. Run .codex/setup.py first.'']\<rparr>)))"
proof (intro conjI impI)
  assume "(arg = None \<or> arg = Some '''') \<and>
    (getenv w ''OPENAI_API_KEY'' = None \<or> getenv w ''OPENAI_API_KEY'' = Some '''')"
  then show "MultiAgentOrchestrator_init w arg s =
        (Inl (ValueError ''OpenAI API key not found. Set OPENAI_API_KEY environment variable.''), s)"
    by (auto simp: MultiAgentOrchestrator_init_def)
next
  assume h: "k \<noteq> '''' \<and>
    (arg = Some k \<or> ((arg = None \<or> arg = Some '''') \<and> getenv w ''OPENAI_API_KEY'' = Some k)) \<and>
    (\<forall>e. context_json w = Inl e \<longrightarrow> is_FileNotFoundError e)"
  then have key: "(if arg \<noteq> None \<and> arg \<noteq> Some '''' then arg else getenv w ''OPENAI_API_KEY'') = Some k"
    by auto
  show "MultiAgentOrchestrator_init w arg s =
        (case context_json w of
           Inr loaded \<Rightarrow>
             (Inr \<lparr>api_key = k,
                   agents = [(CODE_REVIEWER, CodeReviewerAgent \<lparr>agent_type = CODE_REVIEWER, agent_context = loaded\<rparr>),
                             (DOCUMENTATION, DocumentationAgent \<lparr>agent_type = DOCUMENTATION, agent_context = loaded\<rparr>),
                             (TESTING, TestingAgent \<lparr>agent_type = TESTING, agent_context = loaded\<rparr>)]\<rparr>, s)
         | Inl e \<Rightarrow>
             (Inr \<lparr>api_key = k,
                   agents = [(CODE_REVIEWER, CodeReviewerAgent \<lparr>agent_type = CODE_REVIEWER, agent_context = []\<rparr>),
                             (DOCUMENTATION, DocumentationAgent \<lparr>agent_type = DOCUMENTATION, agent_context = []\<rparr>),
                             (TESTING, TestingAgent \<lparr>agent_type = TESTING, agent_context = []\<rparr>)]\<rparr>,
              s\<lparr>trace := trace s @ [Log WARNING ''Context file not found. Run .codex/setup.py first.'',
                                   Log WARNING ''Context file not found. Run .codex/setup.py first.'',
                                   Log WARNING ''Context file not found. Run .codex/setup.py first.'']\<rparr>))"
    using h unfolding MultiAgentOrchestrator_init_def key Let_def
    by (cases "context_json w")
       (simp_all add: CodexAgent_init_def load_project_context_def logger_warning_def emit_def)
qed

theorem orchestrator_needs_credential_witness:
  "MultiAgentOrchestrator_init (example_world\<lparr>getenv := \<lambda>v. None\<rparr>) None example_state =
     (Inl (ValueError ''OpenAI API key not found. Set OPENAI_API_KEY environment variable.''), example_state) \<and>
   MultiAgentOrchestrator_init example_world None example_state =
     (Inr example_orchestrator,
      \<lparr>trace = [Log WARNING ''Context file not found. Run .codex/setup.py first.'',
                Log WARNING ''Context file not found. Run .codex/setup.py first.'',
                Log WARNING ''Context file not found. Run .codex/setup.py first.''],
       calls = 0\<rparr>)"
proof -
  have a: "((None::string option) = None \<or> None = Some '''') \<and>
           (getenv (example_world\<lparr>getenv := \<lambda>v. None\<rparr>) ''OPENAI_API_KEY'' = None \<or>
            getenv (example_world\<lparr>getenv := \<lambda>v. None\<rparr>) ''OPENAI_API_KEY'' = Some '''')"
    by simp
  have b: "''sk-test'' \<noteq> '''' \<and>
    ((None::string option) = Some ''sk-test'' \<or>
     ((None::string option) = None \<or> None = Some '''') \<and> getenv example_world ''OPENAI_API_KEY'' = Some ''sk-test'') \<and>
    (\<forall>e. context_json example_world = Inl e \<longrightarrow> is_FileNotFoundError e)"
    by (simp add: example_world_def)
  from orchestrator_needs_credential[of None "example_world\<lparr>getenv := \<lambda>v. None\<rparr>" example_state]
       a
  have one: "MultiAgentOrchestrator_init (example_world\<lparr>getenv := \<lambda>v. None\<rparr>) None example_state =
     (Inl (ValueError ''OpenAI API key not found. Set OPENAI_API_KEY environment variable.''), example_state)"
    by blast
  have c: "context_json example_world = Inl (FileNotFoundError ''[Errno 2] No such file or directory'')"
    by (simp add: example_world_def)
  from orchestrator_needs_credential[of None example_world example_state "''sk-test''"] b
  have "MultiAgentOrchestrator_init example_world None example_state =
        (case context_json example_world of
           Inr loaded \<Rightarrow>
             (Inr \<lparr>api_key = ''sk-test'',
                   agents = [(CODE_REVIEWER, CodeReviewerAgent \<lparr>agent_type = CODE_REVIEWER, agent_context = loaded\<rparr>),
                             (DOCUMENTATION, DocumentationAgent \<lparr>agent_type = DOCUMENTATION, agent_context = loaded\<rparr>),
                             (TESTING, TestingAgent \<lparr>agent_type = TESTING, agent_context = loaded\<rparr>)]\<rparr>, example_state)
         | Inl e \<Rightarrow>
             (Inr \<lparr>api_key = ''sk-test'',
                   agents = [(CODE_REVIEWER, CodeReviewerAgent \<lparr>agent_type = CODE_REVIEWER, agent_context = []\<rparr>),
                             (DOCUMENTATION, DocumentationAgent \<lparr>agent_type = DOCUMENTATION, agent_context = []\<rparr>),
                             (TESTING, TestingAgent \<lparr>agent_type = TESTING, agent_context = []\<rparr>)]\<rparr>,
              example_state\<lparr>trace := trace example_state @ [Log WARNING ''Context file not found. Run .codex/setup.py first.'',
                                   Log WARNING ''Context file not found. Run .codex/setup.py first.'',
                                   Log WARNING ''Context file not found. Run .codex/setup.py first.'']\<rparr>))"
    by blast
  then have two: "MultiAgentOrchestrator_init example_world None example_state =
     (Inr example_orchestrator,
      \<lparr>trace = [Log WARNING ''Context file not found. Run .codex/setup.py first.'',
                Log WARNING ''Context file not found. Run .codex/setup.py first.'',
                Log WARNING ''Context file not found. Run .codex/setup.py first.''],
       calls = 0\<rparr>)"
    unfolding c by (simp add: example_orchestrator_def example_state_def)
  from one two show ?thesis by blast
qed

text \<open>
  The claim C8 as stated fails: with a credential passed in and a \<open>context.json\<close> that
  does not load, the first agent's constructor raises and so does \<open>__init__\<close>.
\<close>

theorem credential_with_unloadable_context_raises:
  "MultiAgentOrchestrator_init
     (example_world\<lparr>context_json := Inl (ValueError ''Expecting value: line 1 column 1 (char 0)'')\<rparr>)
     (Some ''sk-arg'') example_state =
     (Inl (ValueError ''Expecting value: line 1 column 1 (char 0)''), example_state)"
  by (simp add: MultiAgentOrchestrator_init_def CodexAgent_init_def load_project_context_def)

section \<open>The delay between tasks\<close>

text \<open>
  C4, as the code has it. The delay stands in the \<open>try\<close> block after the append: whenever
  \<open>process_task\<close> returns a record, of status \<open>completed\<close> or \<open>error\<close> alike, the loop
  sleeps one unit before it turns to the next task. A task whose \<open>process_task\<close> raises
  is followed by no delay, so a run sleeps once per registered task whose files are read
  without another failure than not-found.
\<close>

theorem delay_after_each_returned_record:
  assumes "MultiAgentOrchestrator_init w0 key s0 = (Inr self, s1)"
    and "map_of (agents self) (task_type t) = Some a"
    and "process_task w a t
           (logger_info (''Processing '' @ AgentType_value (task_type t) @ '' task: '' @ description t) s) =
         (Inr r, s2)"
  shows "process_workflow_body w self t (rs, s) = (rs @ [r], emit (Sleep 1) s2) \<and>
         process_workflow_loop w self (t # rest) (rs, s) =
           process_workflow_loop w self rest (rs @ [r], emit (Sleep 1) s2) \<and>
         sleeps (trace (snd (process_workflow w self tasks s'))) =
           sleeps (trace s') +
           length (filter (\<lambda>t. registered self t \<and> \<not> task_raises w t) tasks)"
proof -
  have c: "constructed self" using assms(1) by (rule init_constructed)
  have b: "process_workflow_body w self t (rs, s) = (rs @ [r], emit (Sleep 1) s2)"
    using assms(2,3) by (simp add: process_workflow_body_def)
  have "sleeps (trace (snd (process_workflow w self tasks s'))) =
           sleeps (trace s') +
           length (filter (\<lambda>t. registered self t \<and> \<not> task_raises w t) (sorted_reverse priority tasks))"
    using workflow_records[OF c, of tasks w s'] by blast
  then show ?thesis using b by (simp add: length_filter_sorted_reverse)
qed

theorem delay_after_each_returned_record_witness:
  "process_workflow_body example_world example_orchestrator
     (example_task DOCUMENTATION ''A'' [''bot.py''] 1) ([], \<lparr>trace = [], calls = 1\<rparr>) =
     ([[(''agent_type'', Str ''documentation''),
        (''status'', Str ''error''),
        (''error'', Str ''Connection error.'')]],
      \<lparr>trace = [Log INFO ''Processing documentation task: A'',
                Create (agent_request (DocumentationAgent \<lparr>agent_type = DOCUMENTATION, agent_context = []\<rparr>)
                          [file_block ''bot.py'' ''print(1)'']
                          (example_task DOCUMENTATION ''A'' [''bot.py''] 1)),
                Log ERROR ''Documentation generation failed: Connection error.'',
                Sleep 1],
       calls = 2\<rparr>) \<and>
   sleeps (trace (snd (process_workflow example_world example_orchestrator example_tasks example_state))) = 2"
proof -
  have a: "map_of (agents example_orchestrator) (task_type (example_task DOCUMENTATION ''A'' [''bot.py''] 1)) =
             Some (DocumentationAgent \<lparr>agent_type = DOCUMENTATION, agent_context = []\<rparr>)"
    by (simp add: example_orchestrator_def example_task_def)
  have p: "process_task example_world (DocumentationAgent \<lparr>agent_type = DOCUMENTATION, agent_context = []\<rparr>)
             (example_task DOCUMENTATION ''A'' [''bot.py''] 1)
             (logger_info (''Processing '' @ AgentType_value (task_type (example_task DOCUMENTATION ''A'' [''bot.py''] 1)) @
                           '' task: '' @ description (example_task DOCUMENTATION ''A'' [''bot.py''] 1))
                \<lparr>trace = [], calls = 1\<rparr>) =
           (Inr [(''agent_type'', Str ''documentation''),
                 (''status'', Str ''error''),
                 (''error'', Str ''Connection error.'')],
            \<lparr>trace = [Log INFO ''Processing documentation task: A'',
                      Create (agent_request (DocumentationAgent \<lparr>agent_type = DOCUMENTATION, agent_context = []\<rparr>)
                                [file_block ''bot.py'' ''print(1)'']
                                (example_task DOCUMENTATION ''A'' [''bot.py''] 1)),
                      Log ERROR ''Documentation generation failed: Connection error.''],
             calls = 2\<rparr>)"
    by (simp add: DocumentationAgent_process_task_def create_def example_world_def example_task_def
          logger_info_def logger_error_def emit_def)
  have n: "length (filter (\<lambda>t. registered example_orchestrator t \<and> \<not> task_raises example_world t) example_tasks) = 2"
    by (simp add: example_tasks_def example_task_def registered_def example_orchestrator_def
          task_raises_def read_raises_def example_world_def)
  have z: "sleeps (trace example_state) = 0"
    by (simp add: sleeps_def example_state_def)
  from delay_after_each_returned_record[OF example_init a p, of "[]" "[]" example_tasks example_state]
  show ?thesis by (simp add: n z emit_def)
qed

text \<open>
  The claim C4 as stated fails: a registered task whose file cannot be read gets its error
  record from the workflow, and no delay follows it.
\<close>

theorem no_delay_after_raising_task:
  "workflow_results (fst (process_workflow example_world example_orchestrator
                            [example_task TESTING ''D'' [''secrets''] 3] example_state)) =
     [[(''agent_type'', Str ''testing''),
       (''status'', Str ''error''),
       (''error'', Str ''[Errno 13] Permission denied'')]] \<and>
   trace (snd (process_workflow example_world example_orchestrator
                 [example_task TESTING ''D'' [''secrets''] 3] example_state)) =
     [Log INFO ''Processing testing task: D'',
      Log ERROR ''Task failed: [Errno 13] Permission denied'']"
  by (simp add: process_workflow_def sorted_reverse_def process_workflow_body_def
        TestingAgent_process_task_def example_orchestrator_def example_world_def example_task_def
        example_state_def logger_info_def logger_error_def emit_def)

end
